theory Spec2Isabelle
  imports Main "HOL-Library.Word"
begin

section \<open>JavaScript values\<close>

text \<open>
  A JavaScript string is a sequence of 16-bit code units. Literals of the source are
  written \<open>js ''...''\<close> where they are ASCII, and as code units otherwise.
\<close>

type_synonym js_string = "16 word list"

definition js :: "string \<Rightarrow> js_string" where
  "js cs = map of_char cs"

text \<open>
  A value of type \<open>string | null\<close> is falsy when it is \<open>null\<close> or the empty string:
  \<open>truthy\<close> is the test of \<open>if (token)\<close>, and \<open>or_null\<close> is \<open>token || null\<close>.
\<close>

definition truthy :: "js_string option \<Rightarrow> bool" where
  "truthy v = (case v of None \<Rightarrow> False | Some t \<Rightarrow> t \<noteq> [])"

definition or_null :: "js_string option \<Rightarrow> js_string option" where
  "or_null v = (if truthy v then v else None)"

text \<open>
  \<open>String.prototype.trim\<close> removes the white space and line terminator code points of
  ECMAScript from both ends; all of them are single code units.
\<close>

definition is_space :: "16 word \<Rightarrow> bool" where
  "is_space c =
     (c \<in> set [0x0009, 0x000A, 0x000B, 0x000C, 0x000D, 0x0020, 0x00A0, 0x1680,
               0x2028, 0x2029, 0x202F, 0x205F, 0x3000, 0xFEFF]
      \<or> (0x2000 \<le> c \<and> c \<le> 0x200A))"

definition trim :: "js_string \<Rightarrow> js_string" where
  "trim s = rev (dropWhile is_space (rev (dropWhile is_space s)))"

text \<open>
  Where the platform takes a \<open>USVString\<close> (the constructor of \<open>URLSearchParams\<close>,
  \<open>FormData.append\<close>), a string is converted first: a lead surrogate followed by a
  trail surrogate stays as the pair it is, every other surrogate code unit is replaced
  by U+FFFD.
\<close>

definition is_lead :: "16 word \<Rightarrow> bool" where
  "is_lead c = (0xD800 \<le> c \<and> c \<le> 0xDBFF)"

definition is_trail :: "16 word \<Rightarrow> bool" where
  "is_trail c = (0xDC00 \<le> c \<and> c \<le> 0xDFFF)"

fun to_usv :: "js_string \<Rightarrow> js_string" where
  "to_usv [] = []"
| "to_usv [c] = (if is_lead c \<or> is_trail c then [0xFFFD] else [c])"
| "to_usv (c # d # cs) =
     (if is_lead c \<and> is_trail d then c # d # to_usv cs
      else if is_lead c \<or> is_trail c then 0xFFFD # to_usv (d # cs)
      else c # to_usv (d # cs))"

section \<open>The shared HTTP client\<close>

datatype http_verb = GET | POST

datatype File = File (file_name: js_string) (file_bytes: "8 word list")

datatype form_value = Text js_string | Blob File

datatype body =
    NoBody
  | URLSearchParams "(js_string \<times> js_string) list"
  | JsonObject "(js_string \<times> js_string) list"
  | FormData "(js_string \<times> form_value) list"

record request =
  verb :: http_verb
  url :: js_string
  authorization :: "js_string option"
  headers :: "(js_string \<times> js_string) list"
  body :: body

text \<open>
  Modelled from the spec: the client \<open>api\<close> of \<open>./api\<close> is not among the sources.
  The spec has one shared HTTP client whose configuration holds the default
  \<open>Authorization\<close>. The client is a record of that default and of the requests it has
  issued, oldest first; the position of a request in \<open>sent\<close> identifies the promise
  that the call returns.
\<close>

record client =
  auth :: "js_string option"
  sent :: "request list"

text \<open>
  Modelled from the spec: \<open>setAuth\<close> of \<open>./api\<close> is not among the sources. The spec
  has every Credential change mirrored into the shared HTTP client configuration (the
  default \<open>Authorization\<close> header); a null argument leaves no authorization.
\<close>

definition setAuth :: "js_string option \<Rightarrow> client \<Rightarrow> client" where
  "setAuth t c = c\<lparr>auth := t\<rparr>"

text \<open>
  Modelled from the spec: \<open>api.get\<close> and \<open>api.post\<close> of \<open>./api\<close> are not among the
  sources. The spec has the consumers receive the current bearer token automatically
  through the shared HTTP client, with no per-call wiring: a call issues a request that
  carries the client's authorization of that moment, and returns its promise.
\<close>

definition api_request ::
  "http_verb \<Rightarrow> js_string \<Rightarrow> body \<Rightarrow> (js_string \<times> js_string) list \<Rightarrow> client \<Rightarrow> nat \<times> client" where
  "api_request m u b hs c =
     (length (sent c),
      c\<lparr>sent := sent c @ [\<lparr>verb = m, url = u, authorization = auth c, headers = hs, body = b\<rparr>]\<rparr>)"

definition api_get :: "js_string \<Rightarrow> client \<Rightarrow> nat \<times> client" where
  "api_get u c = api_request GET u NoBody [] c"

definition api_post ::
  "js_string \<Rightarrow> body \<Rightarrow> (js_string \<times> js_string) list \<Rightarrow> client \<Rightarrow> nat \<times> client" where
  "api_post u b hs c = api_request POST u b hs c"

text \<open>A rejected request: the handlers read at most \<open>e?.response?.data?.detail\<close>.\<close>

datatype rejection = Rejection (detail: "js_string option")

section \<open>The session: \<open>AuthProvider\<close>\<close>

record User =
  username :: js_string
  name :: js_string
  email :: js_string
  role :: js_string

text \<open>The handlers that \<open>AuthProvider\<close> leaves on a promise until it settles.\<close>

datatype continuation =
    AwaitLogin
  | ThenSetUserCatchLogout

text \<open>
  \<open>token\<close> and \<open>user\<close> are the two state variables of the component, \<open>deps\<close> is the
  dependency array \<open>[token]\<close> of the last run of its effect (\<open>None\<close> before the first
  run), \<open>awaiting\<close> holds its promises in flight. \<open>localStorage\<close> and \<open>http\<close> are
  the two globals it shares with the rest of the page.
\<close>

record session =
  localStorage :: "js_string \<rightharpoonup> js_string"
  token :: "js_string option"
  user :: "User option"
  deps :: "js_string option option"
  http :: client
  awaiting :: "nat \<rightharpoonup> continuation"

definition getItem :: "js_string \<Rightarrow> session \<Rightarrow> js_string option" where
  "getItem k s = localStorage s k"

definition setItem :: "js_string \<Rightarrow> js_string \<Rightarrow> session \<Rightarrow> session" where
  "setItem k v s = s\<lparr>localStorage := (localStorage s)(k \<mapsto> v)\<rparr>"

definition removeItem :: "js_string \<Rightarrow> session \<Rightarrow> session" where
  "removeItem k s = s\<lparr>localStorage := (localStorage s)(k := None)\<rparr>"

definition setToken :: "js_string option \<Rightarrow> session \<Rightarrow> session" where
  "setToken t s = s\<lparr>token := t\<rparr>"

definition setUser :: "User option \<Rightarrow> session \<Rightarrow> session" where
  "setUser u s = s\<lparr>user := u\<rparr>"

text \<open>
  The first render: \<open>useState(localStorage.getItem('token'))\<close> and \<open>useState(null)\<close>.
  The storage and the client are what the page holds when the component mounts.
\<close>

definition AuthProvider :: "(js_string \<rightharpoonup> js_string) \<Rightarrow> client \<Rightarrow> session" where
  "AuthProvider st c =
     \<lparr>localStorage = st, token = st (js ''token''), user = None, deps = None,
      http = c, awaiting = Map.empty\<rparr>"

text \<open>\<open>function logout() { localStorage.removeItem('token'); setToken(null); setUser(null) }\<close>\<close>

definition logout :: "session \<Rightarrow> session" where
  "logout s = setUser None (setToken None (removeItem (js ''token'') s))"

text \<open>
  \<open>login\<close> is asynchronous. \<open>login_call\<close> is its part before the \<open>await\<close>: the
  request to \<open>/auth/login\<close> is issued, with no configuration of its own and with
  \<open>new URLSearchParams({ username, password })\<close> as its body, which holds the two
  strings converted. \<open>login_resume\<close> is its part after: a rejection
  is thrown to the caller of \<open>login\<close> as it is (\<open>Inl\<close>), and of a response the
  \<open>access_token\<close>, a string, is stored and set. \<open>login\<close> is the two with nothing
  in between.
\<close>

definition login_call :: "js_string \<Rightarrow> js_string \<Rightarrow> session \<Rightarrow> nat \<times> session" where
  "login_call u p s =
     (let (i, c) = api_post (js ''/auth/login'')
                     (URLSearchParams [(js ''username'', to_usv u), (js ''password'', to_usv p)])
                     [] (http s)
      in (i, s\<lparr>http := c, awaiting := (awaiting s)(i \<mapsto> AwaitLogin)\<rparr>))"

definition login_resume :: "rejection + js_string \<Rightarrow> session \<Rightarrow> (rejection + unit) \<times> session" where
  "login_resume r s =
     (case r of
        Inl e \<Rightarrow> (Inl e, s)
      | Inr access_token \<Rightarrow>
          (Inr (), setToken (Some access_token) (setItem (js ''token'') access_token s)))"

definition settle :: "nat \<Rightarrow> session \<Rightarrow> session" where
  "settle i s = s\<lparr>awaiting := (awaiting s)(i := None)\<rparr>"

definition login ::
  "js_string \<Rightarrow> js_string \<Rightarrow> rejection + js_string \<Rightarrow> session \<Rightarrow> (rejection + unit) \<times> session" where
  "login u p r s = (let (i, s1) = login_call u p s in login_resume r (settle i s1))"

text \<open>
  The effect
  \<open>setAuth(token || null); if (token) api.get('/auth/me').then(r => setUser(r.data)).catch(() => logout())\<close>
  and the two handlers of its promise: \<open>me_settled\<close> sets \<open>user\<close> to the data of a
  response, a \<open>User\<close>, and logs out on a rejection. Neither handler reads the
  \<open>token\<close> of the moment it runs.
\<close>

definition effect :: "session \<Rightarrow> session" where
  "effect s =
     (let s1 = s\<lparr>http := setAuth (or_null (token s)) (http s)\<rparr>
      in if truthy (token s)
         then (let (i, c) = api_get (js ''/auth/me'') (http s1)
               in s1\<lparr>http := c, awaiting := (awaiting s1)(i \<mapsto> ThenSetUserCatchLogout)\<rparr>)
         else s1)"

definition me_settled :: "rejection + User \<Rightarrow> session \<Rightarrow> session" where
  "me_settled r s = (case r of Inr data \<Rightarrow> setUser (Some data) s | Inl e \<Rightarrow> logout s)"

text \<open>
  \<open>useEffect(..., [token])\<close>: React runs the effect after the first render and after
  every render in which \<open>token\<close> differs from its value at the last run. The run is
  not part of the call of \<open>setToken\<close> that causes it: it is a step of its own, taken
  after the render, and it reads the \<open>token\<close> of that render.
\<close>

definition useEffect :: "session \<Rightarrow> session" where
  "useEffect s = (if deps s = Some (token s) then s else (effect s)\<lparr>deps := Some (token s)\<rparr>)"

text \<open>
  What can happen to a mounted \<open>AuthProvider\<close>, one step at a time: a consumer calls
  \<open>login\<close> or \<open>logout\<close>, a request in flight is answered, React runs the effect,
  another component issues a request of its own through the shared client. An answer to
  a request that is not in flight, or of the other endpoint, is no step.
\<close>

datatype event =
    Login js_string js_string
  | LoginSettled nat "rejection + js_string"
  | MeSettled nat "rejection + User"
  | Logout
  | Effect
  | Request http_verb js_string body "(js_string \<times> js_string) list"

fun step :: "event \<Rightarrow> session \<Rightarrow> session" where
  "step (Login u p) s = snd (login_call u p s)"
| "step (LoginSettled i r) s =
     (if awaiting s i = Some AwaitLogin then snd (login_resume r (settle i s)) else s)"
| "step (MeSettled i r) s =
     (if awaiting s i = Some ThenSetUserCatchLogout then me_settled r (settle i s) else s)"
| "step Logout s = logout s"
| "step Effect s = useEffect s"
| "step (Request m u b hs) s = s\<lparr>http := snd (api_request m u b hs (http s))\<rparr>"

fun run :: "event list \<Rightarrow> session \<Rightarrow> session" where
  "run [] s = s"
| "run (e # es) s = run es (step e s)"

text \<open>The steps that are requests of the other components.\<close>

definition is_Request :: "event \<Rightarrow> bool" where
  "is_Request e = (case e of Request m u b hs \<Rightarrow> True | _ \<Rightarrow> False)"

section \<open>The panels\<close>

datatype Agent = comercial | soporte | documental

definition agent_name :: "Agent \<Rightarrow> js_string" where
  "agent_name a =
     (case a of comercial \<Rightarrow> js ''comercial'' | soporte \<Rightarrow> js ''soporte''
      | documental \<Rightarrow> js ''documental'')"

datatype Role = user_role | assistant_role

record Msg =
  role_msg :: Role
  text_msg :: js_string

record ChatPanel =
  q :: js_string
  loading :: bool
  msgs :: "Msg list"

text \<open>
  The first render of the chat panel. The three code units written as numbers are the
  inverted question mark and the accented e and i of the source's text.
\<close>

definition ChatPanel_init :: ChatPanel where
  "ChatPanel_init =
     \<lparr>q = js ''Hola, '' @ [0x00BF] @ js ''qu'' @ [0x00E9] @ js '' puedes hacer por m''
            @ [0x00ED] @ js ''?'',
      loading = False, msgs = []\<rparr>"

text \<open>
  \<open>send\<close> up to its \<open>await\<close>: the result is \<open>None\<close> when it returns at once, and the
  promise of the request with the message sent otherwise. \<open>send_settled\<close> is the rest.
\<close>

definition send :: "Agent \<Rightarrow> ChatPanel \<Rightarrow> client \<Rightarrow> nat option \<times> ChatPanel \<times> client" where
  "send agent st c =
     (if trim (q st) = [] then (None, st, c)
      else
        (let userMsg = \<lparr>role_msg = user_role, text_msg = q st\<rparr>;
             st1 = st\<lparr>msgs := msgs st @ [userMsg], q := [], loading := True\<rparr>;
             (i, c1) = api_post (js ''/chat/ask'')
                         (JsonObject [(js ''agent'', agent_name agent),
                                      (js ''question'', text_msg userMsg)]) [] c
         in (Some i, st1, c1)))"

text \<open>\<open>v || d\<close>, for \<open>v\<close> a string or undefined.\<close>

definition or_default :: "js_string option \<Rightarrow> js_string \<Rightarrow> js_string" where
  "or_default v d = (case v of None \<Rightarrow> d | Some t \<Rightarrow> if t = [] then d else t)"

definition send_settled :: "rejection + js_string \<Rightarrow> ChatPanel \<Rightarrow> ChatPanel" where
  "send_settled r st =
     (let ans =
        (case r of
           Inr answer \<Rightarrow> \<lparr>role_msg = assistant_role, text_msg = answer\<rparr>
         | Inl e \<Rightarrow>
             \<lparr>role_msg = assistant_role,
              text_msg = js ''Error: '' @ or_default (detail e) (js ''no se pudo obtener respuesta'')\<rparr>)
      in (st\<lparr>msgs := msgs st @ [ans]\<rparr>)\<lparr>loading := False\<rparr>)"

record DataPanel =
  file_state :: "File option"
  status :: js_string

definition upload :: "Agent \<Rightarrow> DataPanel \<Rightarrow> client \<Rightarrow> nat option \<times> DataPanel \<times> client" where
  "upload agent st c =
     (case file_state st of
        None \<Rightarrow> (None, st, c)
      | Some f \<Rightarrow>
          (let fd = FormData [(js ''agent'', Text (to_usv (agent_name agent))), (js ''file'', Blob f)];
               st1 = st\<lparr>status := js ''Subiendo...''\<rparr>;
               (i, c1) = api_post (js ''/vs/upload'') fd
                           [(js ''Content-Type'', js ''multipart/form-data'')] c
           in (Some i, st1, c1)))"

definition upload_settled :: "rejection + js_string \<times> js_string \<Rightarrow> DataPanel \<Rightarrow> DataPanel" where
  "upload_settled r st =
     (case r of
        Inr (filename, vector_store) \<Rightarrow>
          st\<lparr>status := js ''OK: '' @ filename @ [0x0020, 0x2192, 0x0020] @ vector_store\<rparr>
      | Inl e \<Rightarrow>
          st\<lparr>status := js ''Error: '' @ or_default (detail e) (js ''fall'' @ [0x00F3] @ js '' el upload'')\<rparr>)"

section \<open>Invariants of the session\<close>

text \<open>
  Two facts that every step keeps. \<open>mirrored\<close>: the authorization of the client is
  the Credential that the effect last ran for. \<open>tracked\<close>: a promise on which the
  handlers of the effect wait is the promise of a request to \<open>/auth/me\<close>.
\<close>

definition mirrored :: "session \<Rightarrow> bool" where
  "mirrored s = (case deps s of None \<Rightarrow> True | Some t \<Rightarrow> auth (http s) = or_null t)"

definition tracked :: "session \<Rightarrow> bool" where
  "tracked s =
     (\<forall>i. awaiting s i = Some ThenSetUserCatchLogout \<longrightarrow>
        i < length (sent (http s)) \<and> verb (sent (http s) ! i) = GET
        \<and> url (sent (http s) ! i) = js ''/auth/me'')"

section \<open>Basic facts\<close>

lemmas client_defs = setAuth_def api_get_def api_post_def api_request_def

lemmas state_defs = setItem_def removeItem_def setToken_def setUser_def settle_def

lemmas value_defs = truthy_def or_null_def

lemma effect_truthy:
  assumes "token s = Some t" and "t \<noteq> []"
  shows "effect s =
     s\<lparr>http := \<lparr>auth = Some t, sent = sent (http s) @
            [\<lparr>verb = GET, url = js ''/auth/me'', authorization = Some t,
              headers = [], body = NoBody\<rparr>]\<rparr>,
       awaiting := (awaiting s)(length (sent (http s)) \<mapsto> ThenSetUserCatchLogout)\<rparr>"
  using assms by (simp add: effect_def client_defs value_defs)

lemma effect_sent:
  "sent (http (effect s)) = sent (http s) @
     (if truthy (token s)
      then [\<lparr>verb = GET, url = js ''/auth/me'', authorization = token s,
             headers = [], body = NoBody\<rparr>]
      else [])"
  by (simp add: effect_def client_defs value_defs Let_def)

lemma effect_auth: "auth (http (effect s)) = or_null (token s)"
  by (simp add: effect_def client_defs Let_def)

text \<open>The two halves of \<open>login\<close> are two steps of the session.\<close>

lemma login_as_steps:
  "run [Login u p, LoginSettled (length (sent (http s))) r] s = snd (login u p r s)"
  by (simp add: login_def login_call_def client_defs state_defs split: prod.splits)

lemma js_nonempty: "js (c # cs) \<noteq> []" "[] \<noteq> js (c # cs)"
  by (simp_all add: js_def)

text \<open>The conversion keeps a string without surrogates, and a surrogate pair.\<close>

lemma to_usv_unchanged:
  assumes "list_all (\<lambda>c. \<not> is_lead c \<and> \<not> is_trail c) u"
  shows "to_usv u = u"
  using assms by (induction u rule: to_usv.induct) simp_all

lemma to_usv_examples:
  "to_usv [0x0061, 0xD800] = [0x0061, 0xFFFD]"
  "to_usv [0xDC00, 0x0061] = [0xFFFD, 0x0061]"
  "to_usv [0xD83D, 0xDE00] = [0xD83D, 0xDE00]"
  by (simp_all add: is_lead_def is_trail_def)

text \<open>Requests of the other components add to the record of the client and to nothing else.\<close>

lemma run_append: "run (es @ fs) s = run fs (run es s)"
  by (induction es arbitrary: s) simp_all

lemma run_requests:
  assumes "list_all is_Request es"
  shows "\<exists>rs. length rs = length es
    \<and> run es s = s\<lparr>http := (http s)\<lparr>sent := sent (http s) @ rs\<rparr>\<rparr>"
  using assms
proof (induction es arbitrary: s)
  case Nil
  then show ?case by simp
next
  case (Cons e es)
  from Cons.prems obtain m u b hs where e: "e = Request m u b hs"
    by (cases e) (simp_all add: is_Request_def)
  define r where "r = \<lparr>verb = m, url = u, authorization = auth (http s), headers = hs, body = b\<rparr>"
  have s1: "step e s = s\<lparr>http := (http s)\<lparr>sent := sent (http s) @ [r]\<rparr>\<rparr>"
    by (simp add: e r_def api_request_def)
  from Cons.prems have "list_all is_Request es" by simp
  from Cons.IH [OF this, of "step e s"] obtain rs where
    rs: "length rs = length es"
      "run es (step e s) = (step e s)\<lparr>http := (http (step e s))\<lparr>sent := sent (http (step e s)) @ rs\<rparr>\<rparr>"
    by blast
  have "length (r # rs) = length (e # es)"
    using rs(1) by simp
  moreover have "run (e # es) s = s\<lparr>http := (http s)\<lparr>sent := sent (http s) @ (r # rs)\<rparr>\<rparr>"
    using rs(2) by (simp add: s1)
  ultimately show ?case by blast
qed

lemma run_requests_fields:
  assumes "list_all is_Request es"
  shows "token (run es s) = token s" and "user (run es s) = user s"
    and "deps (run es s) = deps s" and "localStorage (run es s) = localStorage s"
    and "awaiting (run es s) = awaiting s" and "auth (http (run es s)) = auth (http s)"
    and "length (sent (http (run es s))) = length (sent (http s)) + length es"
    and "i < length (sent (http s)) \<Longrightarrow> sent (http (run es s)) ! i = sent (http s) ! i"
proof -
  from run_requests [OF assms, of s] obtain rs where
    rs: "length rs = length es" "run es s = s\<lparr>http := (http s)\<lparr>sent := sent (http s) @ rs\<rparr>\<rparr>"
    by blast
  show "token (run es s) = token s" and "user (run es s) = user s"
    and "deps (run es s) = deps s" and "localStorage (run es s) = localStorage s"
    and "awaiting (run es s) = awaiting s" and "auth (http (run es s)) = auth (http s)"
    and "length (sent (http (run es s))) = length (sent (http s)) + length es"
    and "i < length (sent (http s)) \<Longrightarrow> sent (http (run es s)) ! i = sent (http s) ! i"
    using rs by (simp_all add: nth_append)
qed

text \<open>
  The \<open>catch\<close> handler of the identity request: when the request is rejected the
  session is logged out, whatever it was.
\<close>

lemma identity_rejected_logs_out:
  assumes "awaiting s i = Some ThenSetUserCatchLogout"
  shows "token (step (MeSettled i (Inl e)) s) = None
    \<and> user (step (MeSettled i (Inl e)) s) = None
    \<and> localStorage (step (MeSettled i (Inl e)) s) = (localStorage s)(js ''token'' := None)"
  using assms by (simp add: me_settled_def logout_def state_defs)

subsection \<open>The client mirrors the Credential of the last effect\<close>

lemma mirrored_AuthProvider: "mirrored (AuthProvider st c)"
  by (simp add: mirrored_def AuthProvider_def)

lemma mirrored_step:
  assumes "mirrored s"
  shows "mirrored (step e s)"
proof (cases e)
  case (Login u p)
  with assms show ?thesis
    by (simp add: mirrored_def login_call_def client_defs split: option.splits)
next
  case (LoginSettled i r)
  with assms show ?thesis
    by (cases r) (simp_all add: mirrored_def login_resume_def state_defs split: option.splits)
next
  case (MeSettled i r)
  with assms show ?thesis
    by (cases r)
      (simp_all add: mirrored_def me_settled_def logout_def state_defs split: option.splits)
next
  case Logout
  with assms show ?thesis
    by (simp add: mirrored_def logout_def state_defs split: option.splits)
next
  case Effect
  with assms show ?thesis
    by (simp add: mirrored_def useEffect_def effect_def client_defs Let_def
        split: option.splits)
next
  case (Request m u b hs)
  with assms show ?thesis
    by (simp add: mirrored_def client_defs split: option.splits)
qed

lemma mirrored_run: "mirrored s \<Longrightarrow> mirrored (run es s)"
  by (induction es arbitrary: s) (simp_all add: mirrored_step)

subsection \<open>The promises of the effect are identity requests\<close>

lemma tracked_AuthProvider: "tracked (AuthProvider st c)"
  by (simp add: tracked_def AuthProvider_def)

lemma tracked_step:
  assumes "tracked s"
  shows "tracked (step e s)"
proof (cases e)
  case (Login u p)
  with assms show ?thesis
    by (auto simp add: tracked_def login_call_def client_defs nth_append)
next
  case (LoginSettled i r)
  with assms show ?thesis
    by (cases r) (auto simp add: tracked_def login_resume_def state_defs)
next
  case (MeSettled i r)
  with assms show ?thesis
    by (cases r) (auto simp add: tracked_def me_settled_def logout_def state_defs)
next
  case Logout
  with assms show ?thesis
    by (simp add: tracked_def logout_def state_defs)
next
  case Effect
  with assms show ?thesis
    by (auto simp add: tracked_def useEffect_def effect_def client_defs Let_def nth_append)
next
  case (Request m u b hs)
  with assms show ?thesis
    by (auto simp add: tracked_def client_defs nth_append)
qed

lemma tracked_run: "tracked s \<Longrightarrow> tracked (run es s)"
  by (induction es arbitrary: s) (simp_all add: tracked_step)

subsection \<open>Who writes \<open>user\<close> and the storage\<close>

lemma user_set_only_by_me:
  assumes "user s = None" and "user (step e s) \<noteq> None"
  shows "\<exists>i u. e = MeSettled i (Inr u) \<and> awaiting s i = Some ThenSetUserCatchLogout
    \<and> user (step e s) = Some u"
proof (cases e)
  case (Login u p)
  with assms show ?thesis by (simp add: login_call_def client_defs)
next
  case (LoginSettled i r)
  with assms show ?thesis
    by (cases r) (simp_all add: login_resume_def state_defs split: if_splits)
next
  case (MeSettled i r)
  with assms show ?thesis
    by (cases r) (simp_all add: me_settled_def logout_def state_defs split: if_splits)
next
  case Logout
  with assms show ?thesis by (simp add: logout_def state_defs)
next
  case Effect
  with assms show ?thesis
    by (simp add: useEffect_def effect_def client_defs Let_def split: if_splits)
next
  case (Request m u b hs)
  with assms show ?thesis by simp
qed

lemma storage_other_keys:
  assumes "k \<noteq> js ''token''"
  shows "localStorage (step e s) k = localStorage s k"
proof (cases e)
  case (Login u p)
  then show ?thesis by (simp add: login_call_def client_defs)
next
  case (LoginSettled i r)
  with assms show ?thesis
    by (cases r) (simp_all add: login_resume_def state_defs)
next
  case (MeSettled i r)
  with assms show ?thesis
    by (cases r) (simp_all add: me_settled_def logout_def state_defs)
next
  case Logout
  with assms show ?thesis by (simp add: logout_def state_defs)
next
  case Effect
  then show ?thesis
    by (simp add: useEffect_def effect_def client_defs Let_def)
next
  case (Request m u b hs)
  then show ?thesis by simp
qed

section \<open>The session claims\<close>

subsection \<open>Identity and Credential\<close>

text \<open>
  C1. The claim: in every reachable state \<open>user\<close> is non-null only if \<open>token\<close> is, and
  a failed identity request logs the session out. The second half holds
  (\<open>identity_rejected_logs_out\<close>). The first half does not: the \<open>then\<close> handler of
  the identity request sets \<open>user\<close> whenever the response arrives, also after
  \<open>logout\<close> has cleared the Credential that the request was sent for. Here the page
  starts with the token \<open>abc\<close> in the storage, the effect asks for the identity, the
  consumer logs out (and the effect clears the client's authorization), and then the
  answer to the request arrives: the session holds an Identity and no Credential.
\<close>

theorem identity_without_credential:
  "let alice = \<lparr>username = js ''alice'', name = js ''Alice'', email = js ''alice@example.com'',
                 role = js ''admin''\<rparr>;
       s = run [Effect, Logout, Effect, MeSettled 0 (Inr alice)]
             (AuthProvider [js ''token'' \<mapsto> js ''abc''] \<lparr>auth = None, sent = []\<rparr>)
   in token s = None \<and> user s = Some alice \<and> localStorage s (js ''token'') = None
      \<and> auth (http s) = None"
  by (simp add: AuthProvider_def useEffect_def effect_def me_settled_def logout_def
      client_defs state_defs value_defs js_def)

subsection \<open>Mirroring the Credential into the client\<close>

text \<open>
  C2, as stated, fails. \<open>setAuth\<close> is called by the effect, and React runs the effect
  after the render that follows \<open>setToken\<close>, not inside \<open>setToken\<close>. Between the two
  the client still carries the authorization of the previous Credential, and a request
  that a consumer issues there goes out with it. Here the session is logged out and at
  rest, \<open>login\<close> is answered with the token \<open>tok1\<close>, and the chat panel sends its
  question before the effect has run: the request carries no authorization.
\<close>

theorem stale_authorization_before_effect:
  "let s = run [Effect, Login (js ''alice'') (js ''pw1''), LoginSettled 0 (Inr (js ''tok1''))]
             (AuthProvider Map.empty \<lparr>auth = None, sent = []\<rparr>);
       c' = snd (snd (send comercial ChatPanel_init (http s)))
   in token s = Some (js ''tok1'') \<and> localStorage s (js ''token'') = Some (js ''tok1'')
      \<and> url (last (sent c')) = js ''/chat/ask''
      \<and> authorization (last (sent c')) = None
      \<and> authorization (last (sent c')) \<noteq> token s"
  by (simp add: AuthProvider_def useEffect_def effect_def login_call_def login_resume_def
      send_def ChatPanel_init_def trim_def is_space_def client_defs state_defs value_defs
      js_def)

text \<open>
  C2, amended. In every reachable state \<open>s\<close>, the run of the effect leaves the client's
  authorization equal to the Credential (none for a null or empty one); when the
  Credential has changed since the last run and is non-empty, the effect issues one
  request, to \<open>/auth/me\<close>, and that request carries the new Credential; any request
  issued after the effect carries it too; and whenever the effect has run for the
  current Credential, the client's authorization is that Credential.
\<close>

theorem credential_mirrored_by_effect:
  "let s = run es (AuthProvider st c); s' = step Effect s
   in auth (http s') = or_null (token s)
      \<and> sent (http s') = sent (http s) @
           (if deps s \<noteq> Some (token s) \<and> truthy (token s)
            then [\<lparr>verb = GET, url = js ''/auth/me'', authorization = token s,
                   headers = [], body = NoBody\<rparr>]
            else [])
      \<and> authorization (last (sent (snd (api_request m u b hs (http s'))))) = or_null (token s)
      \<and> (deps s = Some (token s) \<longrightarrow> auth (http s) = or_null (token s))"
proof -
  define s where "s = run es (AuthProvider st c)"
  have inv: "mirrored s"
    unfolding s_def by (rule mirrored_run) (rule mirrored_AuthProvider)
  have rest: "deps s = Some (token s) \<longrightarrow> auth (http s) = or_null (token s)"
    using inv by (auto simp add: mirrored_def)
  have a: "auth (http (step Effect s)) = or_null (token s)"
    using rest by (simp add: useEffect_def effect_auth)
  have b: "sent (http (step Effect s)) = sent (http s) @
           (if deps s \<noteq> Some (token s) \<and> truthy (token s)
            then [\<lparr>verb = GET, url = js ''/auth/me'', authorization = token s,
                   headers = [], body = NoBody\<rparr>]
            else [])"
    by (simp add: useEffect_def effect_sent)
  have c: "authorization (last (sent (snd (api_request m u b hs (http (step Effect s))))))
      = or_null (token s)"
    using a by (simp add: api_request_def)
  show ?thesis
    unfolding Let_def s_def [symmetric] using a b c rest by blast
qed

theorem credential_mirrored_by_effect_witness:
  "let s = run [Login (js ''alice'') (js ''pw1''), LoginSettled 0 (Inr (js ''tok1''))]
             (AuthProvider Map.empty \<lparr>auth = None, sent = []\<rparr>);
       s' = step Effect s
   in token s = Some (js ''tok1'') \<and> auth (http s) = None
      \<and> auth (http s') = Some (js ''tok1'')
      \<and> authorization (last (sent (http s'))) = Some (js ''tok1'')
      \<and> url (last (sent (http s'))) = js ''/auth/me''
      \<and> deps s' = Some (token s')
      \<and> auth (http (step Effect s')) = Some (js ''tok1'')
      \<and> sent (http (step Effect s')) = sent (http s')"
  using credential_mirrored_by_effect
    [of "[Login (js ''alice'') (js ''pw1''), LoginSettled 0 (Inr (js ''tok1'')), Effect]"
        Map.empty "\<lparr>auth = None, sent = []\<rparr>" GET "js ''/auth/me''" NoBody "[]"]
  by (simp add: AuthProvider_def useEffect_def effect_def login_call_def login_resume_def
      client_defs state_defs value_defs js_def)

subsection \<open>Login\<close>

text \<open>
  C3. When the token endpoint rejects the credentials, \<open>login\<close> throws the rejection to
  its caller, a logged-out session stays logged out, and neither \<open>token\<close> nor the
  storage, nor \<open>user\<close>, nor the client's authorization is modified; of the session
  only the record of the requests sent has grown.
\<close>

theorem login_rejected:
  assumes "token s = None"
  shows "fst (login u p (Inl e) s) = Inl e
    \<and> token (snd (login u p (Inl e) s)) = None
    \<and> user (snd (login u p (Inl e) s)) = user s
    \<and> localStorage (snd (login u p (Inl e) s)) = localStorage s
    \<and> auth (http (snd (login u p (Inl e) s))) = auth (http s)
    \<and> deps (snd (login u p (Inl e) s)) = deps s"
  using assms
  by (simp add: login_def login_call_def login_resume_def client_defs state_defs)

theorem login_rejected_witness:
  "let s = AuthProvider Map.empty \<lparr>auth = None, sent = []\<rparr>;
       e = Rejection (Some (js ''Incorrect username or password''));
       r = login (js ''alice'') (js ''wrong'') (Inl e) s
   in token s = None \<and> fst r = Inl e \<and> token (snd r) = None \<and> user (snd r) = None
      \<and> localStorage (snd r) (js ''token'') = None"
proof -
  have h: "token (AuthProvider Map.empty \<lparr>auth = None, sent = []\<rparr>) = None"
    by (simp add: AuthProvider_def)
  show ?thesis
    using h login_rejected [OF h, of "js ''alice''" "js ''wrong''"
        "Rejection (Some (js ''Incorrect username or password''))"]
    by (simp add: AuthProvider_def Let_def)
qed

text \<open>
  C4, as stated, fails in three ways, one run for each. First, an accepted login whose
  \<open>access_token\<close> is the empty string: the token is stored and set, but the effect
  treats the empty Credential as none, asks for no identity, and \<open>user\<close> stays null.
  Second, an accepted login that returns the token the session already holds:
  \<open>token\<close> does not change, the effect does not run again, and no identity request
  follows the login. Third, a login made while an identity request of an earlier
  Credential is still in flight: when that request is rejected after the new token has
  been set, its \<open>catch\<close> handler logs the new session out, and the identity answer
  that follows leaves an Identity without a Credential (the handlers do not look at the
  Credential they were installed for, as in C1).
\<close>

theorem login_accepted_not_logged_in:
  "let alice = \<lparr>username = js ''alice'', name = js ''Alice'', email = js ''alice@example.com'',
                 role = js ''admin''\<rparr>;
       none = \<lparr>auth = None, sent = []\<rparr>;
       a = run [Effect, Login (js ''alice'') (js ''pw1''), LoginSettled 0 (Inr []), Effect]
             (AuthProvider Map.empty none);
       b = run [Effect, Login (js ''alice'') (js ''pw1''), LoginSettled 0 (Inr (js ''tok1'')),
                Effect, MeSettled 1 (Inr alice),
                Login (js ''alice'') (js ''pw1''), LoginSettled 2 (Inr (js ''tok1'')), Effect]
             (AuthProvider Map.empty none);
       c = run [Effect, Logout, Effect,
                Login (js ''alice'') (js ''pw1''), LoginSettled 1 (Inr (js ''tok1'')), Effect,
                MeSettled 0 (Inl (Rejection None)), Effect, MeSettled 2 (Inr alice)]
             (AuthProvider [js ''token'' \<mapsto> js ''abc''] none)
   in (token a = Some [] \<and> localStorage a (js ''token'') = Some [] \<and> user a = None
        \<and> length (sent (http a)) = 1 \<and> awaiting a 1 = None)
      \<and> (token b = Some (js ''tok1'') \<and> length (sent (http b)) = 3
        \<and> url (last (sent (http b))) = js ''/auth/login'' \<and> awaiting b 3 = None)
      \<and> (token c = None \<and> user c = Some alice)"
  by (simp add: AuthProvider_def useEffect_def effect_def login_call_def login_resume_def
      me_settled_def logout_def client_defs state_defs value_defs js_nonempty)

text \<open>
  C4, amended. For every login that the backend accepts with a non-empty
  \<open>access_token\<close> other than the token the effect last ran for, when between the
  call of \<open>login\<close> and the answer to the identity request the session takes no other
  step than the answer to the login and the effect (no other \<open>login\<close> or
  \<open>logout\<close>, no answer to an earlier request; requests of the other components may
  come at any point): \<open>login\<close> returns normally, the token is in the storage under
  \<open>token\<close> and is the Credential, the effect mirrors it into the client and asks
  \<open>/auth/me\<close> with it, and the Identity is the answer to that request. \<open>n\<close> is
  the promise of the login request and \<open>m\<close> that of the identity request.
\<close>

theorem login_accepted:
  assumes "tok \<noteq> []" and "deps s \<noteq> Some (Some tok)"
    and "list_all is_Request es1" and "list_all is_Request es2" and "list_all is_Request es3"
  shows "let n = length (sent (http s)); m = Suc n + length es1 + length es2;
             s' = run ([Login u p] @ es1 @ [LoginSettled n (Inr tok)] @ es2 @ [Effect] @ es3
                       @ [MeSettled m (Inr ident)]) s
         in fst (login u p (Inr tok) s) = Inr ()
            \<and> localStorage s' = (localStorage s)(js ''token'' \<mapsto> tok)
            \<and> token s' = Some tok
            \<and> user s' = Some ident
            \<and> auth (http s') = Some tok
            \<and> sent (http s') ! n =
                 \<lparr>verb = POST, url = js ''/auth/login'', authorization = auth (http s),
                  headers = [],
                  body = URLSearchParams [(js ''username'', to_usv u),
                                          (js ''password'', to_usv p)]\<rparr>
            \<and> sent (http s') ! m =
                 \<lparr>verb = GET, url = js ''/auth/me'', authorization = Some tok,
                  headers = [], body = NoBody\<rparr>
            \<and> length (sent (http s')) = Suc m + length es3"
proof -
  define n where "n = length (sent (http s))"
  define m where "m = Suc n + length es1 + length es2"
  define lr where "lr = \<lparr>verb = POST, url = js ''/auth/login'', authorization = auth (http s),
    headers = [],
    body = URLSearchParams [(js ''username'', to_usv u), (js ''password'', to_usv p)]\<rparr>"
  define me where "me = \<lparr>verb = GET, url = js ''/auth/me'', authorization = Some tok,
    headers = [], body = NoBody\<rparr>"
  note rq1 = run_requests_fields [OF assms(3)]
  note rq2 = run_requests_fields [OF assms(4)]
  note rq3 = run_requests_fields [OF assms(5)]
  \<comment> \<open>the call\<close>
  define t1 where "t1 = step (Login u p) s"
  have t1: "token t1 = token s" "user t1 = user s" "deps t1 = deps s"
    "localStorage t1 = localStorage s" "auth (http t1) = auth (http s)"
    "awaiting t1 = (awaiting s)(n \<mapsto> AwaitLogin)"
    "sent (http t1) = sent (http s) @ [lr]"
    by (simp_all add: t1_def n_def lr_def login_call_def client_defs)
  define t2 where "t2 = run es1 t1"
  have t2: "deps t2 = deps s" "localStorage t2 = localStorage s"
    "awaiting t2 n = Some AwaitLogin" "length (sent (http t2)) = Suc n + length es1"
    "sent (http t2) ! n = lr"
    using t1 by (simp_all add: t2_def rq1 n_def)
  \<comment> \<open>the answer to the login\<close>
  define t3 where "t3 = step (LoginSettled n (Inr tok)) t2"
  have t3: "token t3 = Some tok" "deps t3 = deps s"
    "localStorage t3 = (localStorage s)(js ''token'' \<mapsto> tok)"
    "length (sent (http t3)) = Suc n + length es1" "sent (http t3) ! n = lr"
    using t2 by (simp_all add: t3_def login_resume_def state_defs)
  define t4 where "t4 = run es2 t3"
  have t4: "token t4 = Some tok" "deps t4 = deps s"
    "localStorage t4 = (localStorage s)(js ''token'' \<mapsto> tok)"
    "length (sent (http t4)) = m" "sent (http t4) ! n = lr"
    using t3 by (simp_all add: t4_def rq2 m_def)
  \<comment> \<open>the effect\<close>
  define t5 where "t5 = step Effect t4"
  have fire: "deps t4 \<noteq> Some (token t4)"
    using assms(2) t4 by simp
  have "t5 = (effect t4)\<lparr>deps := Some (Some tok)\<rparr>"
    using fire t4 by (simp add: t5_def useEffect_def)
  then have t5': "t5 = t4\<lparr>http := \<lparr>auth = Some tok, sent = sent (http t4) @ [me]\<rparr>,
      awaiting := (awaiting t4)(m \<mapsto> ThenSetUserCatchLogout), deps := Some (Some tok)\<rparr>"
    using effect_truthy [OF t4(1) assms(1)] t4(4) by (simp add: me_def)
  have nm: "n < m"
    by (simp add: m_def)
  have t5: "token t5 = Some tok" "localStorage t5 = (localStorage s)(js ''token'' \<mapsto> tok)"
    "auth (http t5) = Some tok" "awaiting t5 m = Some ThenSetUserCatchLogout"
    "length (sent (http t5)) = Suc m" "sent (http t5) ! n = lr" "sent (http t5) ! m = me"
    using t4 nm by (simp_all add: t5' nth_append)
  define t6 where "t6 = run es3 t5"
  have t6: "token t6 = Some tok" "localStorage t6 = (localStorage s)(js ''token'' \<mapsto> tok)"
    "auth (http t6) = Some tok" "awaiting t6 m = Some ThenSetUserCatchLogout"
    "length (sent (http t6)) = Suc m + length es3" "sent (http t6) ! n = lr"
    "sent (http t6) ! m = me"
    using t5 nm by (simp_all add: t6_def rq3)
  \<comment> \<open>the answer to the identity request\<close>
  define t7 where "t7 = step (MeSettled m (Inr ident)) t6"
  have t7: "token t7 = Some tok" "user t7 = Some ident"
    "localStorage t7 = (localStorage s)(js ''token'' \<mapsto> tok)"
    "auth (http t7) = Some tok"
    "length (sent (http t7)) = Suc m + length es3" "sent (http t7) ! n = lr"
    "sent (http t7) ! m = me"
    using t6 by (simp_all add: t7_def me_settled_def state_defs)
  have whole: "run ([Login u p] @ es1 @ [LoginSettled n (Inr tok)] @ es2 @ [Effect] @ es3
                       @ [MeSettled m (Inr ident)]) s = t7"
    by (simp add: run_append t7_def t6_def t5_def t4_def t3_def t2_def t1_def)
  have ret: "fst (login u p (Inr tok) s) = Inr ()"
    by (simp add: login_def login_call_def login_resume_def client_defs split: prod.splits)
  show ?thesis
    unfolding Let_def n_def [symmetric] m_def [symmetric] whole lr_def [symmetric]
      me_def [symmetric]
    using t7 ret by simp
qed

theorem login_accepted_witness:
  "let alice = \<lparr>username = js ''alice'', name = js ''Alice'', email = js ''alice@example.com'',
                 role = js ''admin''\<rparr>;
       ask = Request POST (js ''/chat/ask'') (JsonObject []) [];
       s = step Effect (AuthProvider Map.empty \<lparr>auth = None, sent = []\<rparr>);
       s' = run [Login (js ''alice'') (js ''pw1''), ask, LoginSettled 0 (Inr (js ''tok1'')),
                 Effect, ask, MeSettled 2 (Inr alice)] s
   in js ''tok1'' \<noteq> [] \<and> deps s \<noteq> Some (Some (js ''tok1''))
      \<and> list_all is_Request [ask] \<and> list_all is_Request []
      \<and> localStorage s' (js ''token'') = Some (js ''tok1'') \<and> token s' = Some (js ''tok1'')
      \<and> user s' = Some alice \<and> auth (http s') = Some (js ''tok1'')
      \<and> url (sent (http s') ! 0) = js ''/auth/login''
      \<and> authorization (sent (http s') ! 1) = None
      \<and> url (sent (http s') ! 2) = js ''/auth/me''
      \<and> authorization (sent (http s') ! 2) = Some (js ''tok1'')
      \<and> authorization (sent (http s') ! 3) = Some (js ''tok1'')"
proof -
  define s where "s = step Effect (AuthProvider Map.empty \<lparr>auth = None, sent = []\<rparr>)"
  define ask where "ask = Request POST (js ''/chat/ask'') (JsonObject []) []"
  have h1: "js ''tok1'' \<noteq> []"
    by (simp add: js_def)
  have h2: "deps s \<noteq> Some (Some (js ''tok1''))"
    by (simp add: s_def AuthProvider_def useEffect_def effect_def client_defs value_defs)
  have h3: "list_all is_Request [ask]"
    by (simp add: ask_def is_Request_def)
  have h4: "list_all is_Request []"
    by simp
  show ?thesis
    using h1 h2 h3 h4
      login_accepted [OF h1 h2 h3 h4 h3, of "js ''alice''" "js ''pw1''"
        "\<lparr>username = js ''alice'', name = js ''Alice'', email = js ''alice@example.com'',
          role = js ''admin''\<rparr>"]
    by (simp add: s_def ask_def Let_def AuthProvider_def useEffect_def effect_def
        login_call_def login_resume_def me_settled_def is_Request_def
        client_defs state_defs value_defs js_nonempty)
qed

text \<open>
  C7. Every call of \<open>login\<close>, whatever the answer, issues exactly one request: a
  \<open>POST\<close> to \<open>/auth/login\<close> with no header of its own, whose body is the
  \<open>URLSearchParams\<close> of the username and the password, in this order and each
  converted as the constructor converts it; the body is not a JSON object.
\<close>

theorem login_form_encoded:
  "sent (http (snd (login u p r s))) = sent (http s) @
     [\<lparr>verb = POST, url = js ''/auth/login'', authorization = auth (http s), headers = [],
       body = URLSearchParams [(js ''username'', to_usv u), (js ''password'', to_usv p)]\<rparr>]
   \<and> headers (last (sent (http (snd (login u p r s))))) = []
   \<and> body (last (sent (http (snd (login u p r s))))) =
       URLSearchParams [(js ''username'', to_usv u), (js ''password'', to_usv p)]
   \<and> (\<forall>kv. body (last (sent (http (snd (login u p r s))))) \<noteq> JsonObject kv)"
  by (cases r) (simp_all add: login_def login_call_def login_resume_def client_defs state_defs)

subsection \<open>Restoring at start\<close>

text \<open>
  C5, as stated, fails when the storage holds the empty string under \<open>token\<close>: a
  persisted token exists, it becomes the Credential, but the effect asks for no
  identity, nothing is in flight that could be rejected, and the storage keeps it.
\<close>

theorem restore_empty_token:
  "let s = run [Effect] (AuthProvider [js ''token'' \<mapsto> []] \<lparr>auth = None, sent = []\<rparr>);
       rejected = step (MeSettled 0 (Inl (Rejection None))) s
   in token s = Some [] \<and> sent (http s) = [] \<and> awaiting s 0 = None
      \<and> token rejected = Some [] \<and> localStorage rejected (js ''token'') = Some []"
  by (simp add: AuthProvider_def useEffect_def effect_def client_defs value_defs)

text \<open>
  C5, amended. When the storage holds a non-empty token at the start, that token is
  the Credential of the first render and the Identity is null; the first run of the
  effect issues one request, to \<open>/auth/me\<close>, carrying the token. If the request is
  rejected, \<open>token\<close> and \<open>user\<close> are null and the token is removed from the storage
  (and the next run of the effect clears the client's authorization and sends
  nothing); if it is answered, the Credential is kept and the Identity is the answer.
\<close>

theorem restore_from_storage:
  assumes "st (js ''token'') = Some t" and "t \<noteq> []"
  shows "let s0 = AuthProvider st c; n = length (sent c); s1 = step Effect s0;
             me = \<lparr>verb = GET, url = js ''/auth/me'', authorization = Some t,
                   headers = [], body = NoBody\<rparr>;
             rejected = step (MeSettled n (Inl e)) s1;
             accepted = step (MeSettled n (Inr ident)) s1
         in token s0 = Some t \<and> user s0 = None
            \<and> sent (http s1) = sent c @ [me] \<and> awaiting s1 n = Some ThenSetUserCatchLogout
            \<and> token rejected = None \<and> user rejected = None
            \<and> localStorage rejected = st(js ''token'' := None)
            \<and> auth (http (step Effect rejected)) = None
            \<and> sent (http (step Effect rejected)) = sent c @ [me]
            \<and> token accepted = Some t \<and> user accepted = Some ident
            \<and> localStorage accepted = st"
proof -
  define s0 where "s0 = AuthProvider st c"
  have s0: "token s0 = Some t" "user s0 = None" "deps s0 = None" "http s0 = c"
    "localStorage s0 = st" "awaiting s0 = Map.empty"
    using assms(1) by (simp_all add: s0_def AuthProvider_def)
  define s1 where "s1 = step Effect s0"
  have s1: "s1 = (effect s0)\<lparr>deps := Some (Some t)\<rparr>"
    using s0 by (simp add: s1_def useEffect_def)
  note e0 = effect_truthy [OF s0(1) assms(2)]
  show ?thesis
    unfolding Let_def s0_def [symmetric] s1_def [symmetric]
    using s0 assms(2)
    by (simp add: s1 e0 me_settled_def logout_def state_defs useEffect_def effect_def
        client_defs value_defs)
qed

theorem restore_from_storage_witness:
  "let alice = \<lparr>username = js ''alice'', name = js ''Alice'', email = js ''alice@example.com'',
                 role = js ''admin''\<rparr>;
       st = [js ''token'' \<mapsto> js ''abc''];
       s1 = step Effect (AuthProvider st \<lparr>auth = None, sent = []\<rparr>);
       rejected = step (MeSettled 0 (Inl (Rejection None))) s1;
       accepted = step (MeSettled 0 (Inr alice)) s1
   in st (js ''token'') = Some (js ''abc'') \<and> js ''abc'' \<noteq> []
      \<and> authorization (last (sent (http s1))) = Some (js ''abc'')
      \<and> token rejected = None \<and> user rejected = None
      \<and> localStorage rejected (js ''token'') = None
      \<and> token accepted = Some (js ''abc'') \<and> user accepted = Some alice"
proof -
  have h1: "[js ''token'' \<mapsto> js ''abc''] (js ''token'') = Some (js ''abc'')"
    by simp
  have h2: "js ''abc'' \<noteq> []"
    by (simp add: js_def)
  show ?thesis
    using h1 h2
      restore_from_storage [of "[js ''token'' \<mapsto> js ''abc'']" "js ''abc''"
        "\<lparr>auth = None, sent = []\<rparr>" "Rejection None"
        "\<lparr>username = js ''alice'', name = js ''Alice'', email = js ''alice@example.com'',
          role = js ''admin''\<rparr>", OF h1 h2]
    by (simp add: Let_def AuthProvider_def useEffect_def effect_def me_settled_def logout_def
        client_defs state_defs value_defs js_def)
qed

text \<open>
  C8. At the start the Identity is null, whatever the storage holds, and the
  Credential is what the storage holds under \<open>token\<close>. From every reachable state, a
  step that makes the Identity non-null is the answer to a \<open>GET\<close> request to
  \<open>/auth/me\<close> that the session has sent, and the Identity is that answer. No step
  writes the storage under another key than \<open>token\<close>.
\<close>

theorem identity_null_at_start:
  "user (AuthProvider st c) = None \<and> token (AuthProvider st c) = st (js ''token'')
   \<and> (let s = run es (AuthProvider st c)
      in (user s = None \<longrightarrow> user (step e s) \<noteq> None \<longrightarrow>
            (\<exists>i u. e = MeSettled i (Inr u) \<and> user (step e s) = Some u
               \<and> i < length (sent (http s)) \<and> verb (sent (http s) ! i) = GET
               \<and> url (sent (http s) ! i) = js ''/auth/me''))
         \<and> (k \<noteq> js ''token'' \<longrightarrow> localStorage (step e s) k = localStorage s k))"
proof -
  define s where "s = run es (AuthProvider st c)"
  have t: "tracked s"
    unfolding s_def by (rule tracked_run) (rule tracked_AuthProvider)
  have a: "user s = None \<longrightarrow> user (step e s) \<noteq> None \<longrightarrow>
            (\<exists>i u. e = MeSettled i (Inr u) \<and> user (step e s) = Some u
               \<and> i < length (sent (http s)) \<and> verb (sent (http s) ! i) = GET
               \<and> url (sent (http s) ! i) = js ''/auth/me'')"
  proof (intro impI)
    assume h: "user s = None" "user (step e s) \<noteq> None"
    from user_set_only_by_me [OF h] obtain i u where
      iu: "e = MeSettled i (Inr u)" "awaiting s i = Some ThenSetUserCatchLogout"
        "user (step e s) = Some u" by blast
    from t iu(2) have "i < length (sent (http s)) \<and> verb (sent (http s) ! i) = GET
      \<and> url (sent (http s) ! i) = js ''/auth/me''"
      by (simp add: tracked_def)
    with iu show "\<exists>i u. e = MeSettled i (Inr u) \<and> user (step e s) = Some u
               \<and> i < length (sent (http s)) \<and> verb (sent (http s) ! i) = GET
               \<and> url (sent (http s) ! i) = js ''/auth/me''" by blast
  qed
  have b: "k \<noteq> js ''token'' \<longrightarrow> localStorage (step e s) k = localStorage s k"
    using storage_other_keys by blast
  show ?thesis
    unfolding Let_def s_def [symmetric] using a b by (simp add: AuthProvider_def)
qed

theorem identity_null_at_start_witness:
  "let alice = \<lparr>username = js ''alice'', name = js ''Alice'', email = js ''alice@example.com'',
                 role = js ''admin''\<rparr>;
       s0 = AuthProvider [js ''token'' \<mapsto> js ''abc'', js ''theme'' \<mapsto> js ''dark'']
              \<lparr>auth = None, sent = []\<rparr>;
       s = run [Effect] s0;
       s' = step (MeSettled 0 (Inr alice)) s
   in user s0 = None \<and> token s0 = Some (js ''abc'')
      \<and> user s = None \<and> user s' = Some alice
      \<and> url (sent (http s) ! 0) = js ''/auth/me''
      \<and> js ''theme'' \<noteq> js ''token''
      \<and> localStorage s' (js ''theme'') = Some (js ''dark'')"
  using identity_null_at_start
    [of "[js ''token'' \<mapsto> js ''abc'', js ''theme'' \<mapsto> js ''dark'']"
        "\<lparr>auth = None, sent = []\<rparr>" "[Effect]"
        "MeSettled 0 (Inr \<lparr>username = js ''alice'', name = js ''Alice'',
           email = js ''alice@example.com'', role = js ''admin''\<rparr>)"
        "js ''theme''"]
  by (simp add: AuthProvider_def useEffect_def effect_def me_settled_def
      client_defs state_defs value_defs js_def)

subsection \<open>Logout\<close>

text \<open>
  C6. From every state, \<open>logout\<close> leaves \<open>token\<close> and \<open>user\<close> null and the
  storage without the key \<open>token\<close> (the other keys as they were); it sends nothing
  and leaves the client and the promises in flight as they were; and a second
  \<open>logout\<close> changes nothing.
\<close>

theorem logout_clears:
  "token (logout s) = None \<and> user (logout s) = None
   \<and> localStorage (logout s) = (localStorage s)(js ''token'' := None)
   \<and> getItem (js ''token'') (logout s) = None
   \<and> http (logout s) = http s \<and> awaiting (logout s) = awaiting s
   \<and> deps (logout s) = deps s
   \<and> step Logout s = logout s
   \<and> logout (logout s) = logout s"
  by (simp add: logout_def state_defs getItem_def)

section \<open>The panel claims\<close>

text \<open>
  C9. When every code unit of the question is white space (the empty question
  included), \<open>send\<close> returns at once: no request is issued, and the messages, the
  question and the loading flag are as they were.
\<close>

theorem send_blank:
  assumes "\<forall>c \<in> set (q st). is_space c"
  shows "send agent st c = (None, st, c)"
proof -
  have d: "dropWhile is_space (q st) = []"
    using assms dropWhile_eq_Nil_conv [of is_space "q st"] by blast
  have "trim (q st) = []"
    unfolding trim_def d by simp
  then show ?thesis
    by (simp add: send_def)
qed

theorem send_blank_witness:
  "let st = \<lparr>q = [0x0020, 0x0009, 0x3000, 0x000A], loading = False,
              msgs = [\<lparr>role_msg = user_role, text_msg = js ''Hola''\<rparr>]\<rparr>;
       c = \<lparr>auth = Some (js ''tok1''), sent = []\<rparr>
   in is_space 0x0020 \<and> is_space 0x0009 \<and> is_space 0x3000 \<and> is_space 0x000A
      \<and> send soporte st c = (None, st, c) \<and> sent (snd (snd (send soporte st c))) = []"
proof -
  have h: "\<forall>c \<in> set (q \<lparr>q = [0x0020, 0x0009, 0x3000, 0x000A], loading = False,
              msgs = [\<lparr>role_msg = user_role, text_msg = js ''Hola''\<rparr>]\<rparr>). is_space c"
    by (simp add: is_space_def)
  show ?thesis
    using send_blank [OF h, of soporte "\<lparr>auth = Some (js ''tok1''), sent = []\<rparr>"]
    by (simp add: Let_def is_space_def)
qed

text \<open>
  C10. With no file selected, \<open>upload\<close> returns at once: no request is issued and
  the status text is as it was.
\<close>

theorem upload_no_file:
  assumes "file_state st = None"
  shows "upload agent st c = (None, st, c)"
  using assms by (simp add: upload_def)

theorem upload_no_file_witness:
  "let st = \<lparr>file_state = None, status = js ''Subiendo...''\<rparr>;
       c = \<lparr>auth = None, sent = []\<rparr>
   in file_state st = None \<and> upload documental st c = (None, st, c)
      \<and> status (fst (snd (upload documental st c))) = js ''Subiendo...''"
proof -
  have h: "file_state \<lparr>file_state = None, status = js ''Subiendo...''\<rparr> = None"
    by simp
  show ?thesis
    using h upload_no_file [OF h, of documental "\<lparr>auth = None, sent = []\<rparr>"]
    by (simp add: Let_def)
qed

end
